theory Spec2Isabelle
  imports Complex_Main
begin

section \<open>JavaScript values\<close>

text \<open>
  The application is a single React component that exists in two revisions:
  \<^verbatim>\<open>src/src/App.jsx\<close> and \<^verbatim>\<open>src/unnamed/part_000\<close>. Both declare the same
  function names, so every definition translated from the first carries the suffix
  \<open>_jsx\<close> and every definition translated from the second the suffix \<open>_p0\<close>.

  JavaScript is untyped: a message field can hold \<open>null\<close>, a string, or whatever a host
  capability returned. \<open>jsval\<close> has the values the two files distinguish: \<open>undefined\<close>,
  \<open>null\<close>, strings and objects (a list of properties). Strings are \<open>char list\<close>; the
  model covers code units below 256.
\<close>

datatype jsval = JUndefined | JNull | JStr string | JObj "(string \<times> jsval) list"

text \<open>JavaScript truthiness, as used by \<open>if (x)\<close>, \<open>x ? a : b\<close>, \<open>x || y\<close> and \<open>x && y\<close>.\<close>

fun truthy :: "jsval \<Rightarrow> bool" where
  "truthy JUndefined = False"
| "truthy JNull = False"
| "truthy (JStr s) = (s \<noteq> [])"
| "truthy (JObj fs) = True"

text \<open>\<open>a || b\<close>: the left operand when it is truthy, the right one otherwise.\<close>

definition js_or :: "jsval \<Rightarrow> jsval \<Rightarrow> jsval" where
  "js_or a b = (if truthy a then a else b)"

text \<open>
  \<open>x?.p\<close>: the property \<open>p\<close> of an object, \<open>undefined\<close> when the object has none, when
  \<open>x\<close> is a string (no string has a \<open>summary\<close> property) and when \<open>x\<close> is \<open>null\<close> or
  \<open>undefined\<close>. The plain read \<open>x.p\<close> agrees with it on every truthy \<open>x\<close>.
\<close>

fun opt_prop :: "jsval \<Rightarrow> string \<Rightarrow> jsval" where
  "opt_prop (JObj fs) p = (case map_of fs p of None \<Rightarrow> JUndefined | Some v \<Rightarrow> v)"
| "opt_prop v p = JUndefined"

text \<open>
  \<open>String.prototype.trim\<close> removes white space and line terminators from both ends.
  Below code unit 256 these are TAB, LF, VT, FF, CR, SP and NBSP.
\<close>

definition is_ws :: "char \<Rightarrow> bool" where
  "is_ws c = (c \<in> set [CHR 0x09, CHR 0x0A, CHR 0x0B, CHR 0x0C, CHR 0x0D, CHR 0x20, CHR 0xA0])"

definition trim :: "string \<Rightarrow> string" where
  "trim s = rev (dropWhile is_ws (rev (dropWhile is_ws s)))"

section \<open>The host capabilities\<close>

text \<open>
  The three capabilities live under \<open>self.ai\<close>. Each is probed with
  \<open>"ai" in self\<close> and \<open>"name" in self.ai\<close>; when present, \<open>create\<close> yields a handle
  or raises, and the handle's method yields a value or raises. An awaited promise that
  rejects is a raise.
\<close>

datatype 'a outcome = Raises | Returns 'a

datatype detection = Detection (result_detectedLanguage: jsval) (result_confidence: real)

record summarizer_config =
  task :: string
  format :: string
  length_cfg :: string

record translator_config =
  sourceLanguage :: jsval
  targetLanguage :: string

record ai_api =
  languageDetector :: "(string \<Rightarrow> detection list outcome) outcome option"
  summarizer :: "(summarizer_config \<Rightarrow> (string \<Rightarrow> jsval outcome) outcome) option"
  translator :: "(translator_config \<Rightarrow> (string \<Rightarrow> jsval outcome) outcome) option"

record js_self =
  ai :: "ai_api option"

text \<open>
  \<open>capability sel self = None\<close> is the source's guard
  \<open>!("ai" in self) || !("name" in self.ai)\<close>.
\<close>

definition capability :: "(ai_api \<Rightarrow> 'c option) \<Rightarrow> js_self \<Rightarrow> 'c option" where
  "capability sel self = (case ai self of None \<Rightarrow> None | Some api \<Rightarrow> sel api)"

text \<open>Every call made to a capability is recorded, in order.\<close>

datatype cap_call =
    CreateDetector
  | DetectCall string
  | CreateSummarizer summarizer_config
  | SummarizeCall string
  | CreateTranslator translator_config
  | TranslateCall string

section \<open>The component state\<close>

text \<open>
  \<open>part_000\<close> names the second message field \<open>language\<close>, the draft \<open>userInput\<close> and
  the target language \<open>selectedTargetLanguage\<close>; the records keep the names of
  \<open>App.jsx\<close> for both revisions. \<open>console\<close> collects the message that is the first
  argument of each \<open>console.error\<close> (the error object that may follow it is opaque) and
  \<open>calls\<close> the capability calls: both are effects on the host, kept in the state so that
  they can be observed.
\<close>

record message =
  "text" :: string
  detectedLanguage :: jsval
  summary :: jsval
  translation :: jsval

record app_state =
  messages :: "message list"
  inputText :: string
  selectedLanguage :: string
  error :: string
  console :: "string list"
  calls :: "cap_call list"

definition initial_state :: app_state where
  "initial_state =
     \<lparr>messages = [], inputText = [], selectedLanguage = ''en'', error = [], console = [], calls = []\<rparr>"

definition consoleError :: "string \<Rightarrow> app_state \<Rightarrow> app_state" where
  "consoleError msg s = s\<lparr>console := console s @ [msg]\<rparr>"

definition called :: "cap_call \<Rightarrow> app_state \<Rightarrow> app_state" where
  "called c s = s\<lparr>calls := calls s @ [c]\<rparr>"

definition setError :: "string \<Rightarrow> app_state \<Rightarrow> app_state" where
  "setError e s = s\<lparr>error := e\<rparr>"

definition setInputText :: "string \<Rightarrow> app_state \<Rightarrow> app_state" where
  "setInputText t s = s\<lparr>inputText := t\<rparr>"

definition setSelectedLanguage :: "string \<Rightarrow> app_state \<Rightarrow> app_state" where
  "setSelectedLanguage l s = s\<lparr>selectedLanguage := l\<rparr>"

text \<open>The configuration both revisions pass to \<open>self.ai.summarizer.create\<close>.\<close>

definition summarizer_options :: summarizer_config where
  "summarizer_options =
     \<lparr>task = ''summarization'', format = ''plain-text'', length_cfg = ''short''\<rparr>"

datatype js_error = TypeError

section \<open>\<open>src/src/App.jsx\<close>\<close>

text \<open>
  A handler is modelled as running to completion on the state it was started in: the
  values its closure captured (\<open>messages\<close>, \<open>inputText\<close>, \<open>selectedLanguage\<close>) are those
  of the state it is applied to.
\<close>

definition detectLanguage_jsx :: "js_self \<Rightarrow> string \<Rightarrow> app_state \<Rightarrow> jsval \<times> app_state" where
  "detectLanguage_jsx self txt s =
     (case capability languageDetector self of
        None \<Rightarrow> (JNull, consoleError ''Language Detector API not supported.'' s)
      | Some create \<Rightarrow>
          (let s1 = called CreateDetector s in
           case create of
             Raises \<Rightarrow> (JNull, consoleError ''Language detection error:'' s1)
           | Returns detect \<Rightarrow>
               (let s2 = called (DetectCall txt) s1 in
                case detect txt of
                  Raises \<Rightarrow> (JNull, consoleError ''Language detection error:'' s2)
                | Returns results \<Rightarrow>
                    (if length results > 0 then result_detectedLanguage (hd results) else JNull, s2))))"

definition summarizeText_jsx :: "js_self \<Rightarrow> string \<Rightarrow> app_state \<Rightarrow> jsval \<times> app_state" where
  "summarizeText_jsx self txt s =
     (case capability summarizer self of
        None \<Rightarrow> (JNull, consoleError ''Summarizer API not supported.'' s)
      | Some create \<Rightarrow>
          (let s1 = called (CreateSummarizer summarizer_options) s in
           case create summarizer_options of
             Raises \<Rightarrow> (JStr ''Error in summarization'', consoleError ''Summarization error:'' s1)
           | Returns summarize \<Rightarrow>
               (let s2 = called (SummarizeCall txt) s1 in
                case summarize txt of
                  Raises \<Rightarrow> (JStr ''Error in summarization'', consoleError ''Summarization error:'' s2)
                | Returns result \<Rightarrow>
                    (if truthy result then js_or (opt_prop result ''summary'') result
                     else JStr ''Summarization failed'', s2))))"

definition translateText_jsx ::
  "js_self \<Rightarrow> string \<Rightarrow> jsval \<Rightarrow> string \<Rightarrow> app_state \<Rightarrow> jsval \<times> app_state" where
  "translateText_jsx self txt sourceLang targetLang s =
     (case capability translator self of
        None \<Rightarrow> (JUndefined, consoleError ''Translator API not supported.'' s)
      | Some create \<Rightarrow>
          (let cfg = \<lparr>sourceLanguage = sourceLang, targetLanguage = targetLang\<rparr>;
               s1 = called (CreateTranslator cfg) s in
           case create cfg of
             Raises \<Rightarrow> (JNull, consoleError ''Translation error:'' s1)
           | Returns translate \<Rightarrow>
               (let s2 = called (TranslateCall txt) s1 in
                case translate txt of
                  Raises \<Rightarrow> (JNull, consoleError ''Translation error:'' s2)
                | Returns result \<Rightarrow> (result, s2))))"

text \<open>
  \<open>handleSubmit\<close> appends to the \<open>messages\<close> its closure captured; the new message
  stores what \<open>detectLanguage\<close> returned, \<open>null\<close> included.
\<close>

definition handleSubmit_jsx :: "js_self \<Rightarrow> app_state \<Rightarrow> app_state" where
  "handleSubmit_jsx self s =
     (if trim (inputText s) = [] then setError ''Please enter text before submitting.'' s
      else
        (let (detected, s1) = detectLanguage_jsx self (inputText s) (setError [] s);
             newMessage = \<lparr>text = inputText s, detectedLanguage = detected,
                            summary = JStr [], translation = JStr []\<rparr>
         in setInputText [] (s1\<lparr>messages := messages s @ [newMessage]\<rparr>)))"

text \<open>
  \<open>messages[index]\<close> is \<open>undefined\<close> out of range, and reading \<open>.text\<close> of it throws a
  \<open>TypeError\<close>: the handler's promise rejects and no state is written.
\<close>

definition handleSummarize_jsx :: "js_self \<Rightarrow> nat \<Rightarrow> app_state \<Rightarrow> js_error + app_state" where
  "handleSummarize_jsx self index s =
     (if index < length (messages s) then
        (let message = messages s ! index in
         if text message = [] then Inr s
         else
           (let (summ, s1) = summarizeText_jsx self (text message) s in
            if truthy summ then
              Inr (s1\<lparr>messages := (messages s1)[index := (messages s1 ! index)\<lparr>summary := summ\<rparr>]\<rparr>)
            else Inr s1))
      else Inl TypeError)"

text \<open>
  \<open>handleTranslate\<close> copies the captured array and assigns the field of the element in
  place; the element is shared with the old array, which is dropped.
\<close>

definition handleTranslate_jsx :: "js_self \<Rightarrow> nat \<Rightarrow> app_state \<Rightarrow> js_error + app_state" where
  "handleTranslate_jsx self index s =
     (if index < length (messages s) then
        (let message = messages s ! index;
             (transl, s1) = translateText_jsx self (text message) (detectedLanguage message)
                              (selectedLanguage s) s in
         if truthy transl then
           Inr (s1\<lparr>messages := (messages s)[index := (messages s ! index)\<lparr>translation := transl\<rparr>]\<rparr>)
         else Inr s1)
      else Inl TypeError)"

section \<open>\<open>src/unnamed/part_000\<close>\<close>

text \<open>
  This revision also writes the error slot from the three capability wrappers, stores
  \<open>"Unknown"\<close> when no language was detected, and updates \<open>messages\<close> through
  functional updates on the previous state.
\<close>

definition detectLanguage_p0 :: "js_self \<Rightarrow> string \<Rightarrow> app_state \<Rightarrow> jsval \<times> app_state" where
  "detectLanguage_p0 self txt s =
     (case capability languageDetector self of
        None \<Rightarrow>
          (JNull, setError ''Feature unavailable: Language detection.''
                    (consoleError ''Language Detector API not supported.'' s))
      | Some create \<Rightarrow>
          (let s1 = called CreateDetector s in
           case create of
             Raises \<Rightarrow>
               (JNull, setError ''Could not detect the language. Please try again.''
                         (consoleError ''Language detection error:'' s1))
           | Returns detect \<Rightarrow>
               (let s2 = called (DetectCall txt) s1 in
                case detect txt of
                  Raises \<Rightarrow>
                    (JNull, setError ''Could not detect the language. Please try again.''
                              (consoleError ''Language detection error:'' s2))
                | Returns results \<Rightarrow>
                    (js_or (case results of [] \<Rightarrow> JUndefined
                            | r # rs \<Rightarrow> result_detectedLanguage r) JNull, s2))))"

definition summarizeText_p0 :: "js_self \<Rightarrow> string \<Rightarrow> app_state \<Rightarrow> jsval \<times> app_state" where
  "summarizeText_p0 self txt s =
     (case capability summarizer self of
        None \<Rightarrow>
          (JNull, setError ''Feature unavailable: Text summarization.''
                    (consoleError ''Summarizer API not supported.'' s))
      | Some create \<Rightarrow>
          (let s1 = called (CreateSummarizer summarizer_options) s in
           case create summarizer_options of
             Raises \<Rightarrow>
               (JNull, setError ''Summarization failed. Please check your input and try again.''
                         (consoleError ''Summarization error:'' s1))
           | Returns summarize \<Rightarrow>
               (let s2 = called (SummarizeCall txt) s1 in
                case summarize txt of
                  Raises \<Rightarrow>
                    (JNull, setError ''Summarization failed. Please check your input and try again.''
                              (consoleError ''Summarization error:'' s2))
                | Returns result \<Rightarrow>
                    (js_or (js_or (opt_prop result ''summary'') result)
                       (JStr ''Failed to generate summary.''), s2))))"

definition translateText_p0 ::
  "js_self \<Rightarrow> string \<Rightarrow> jsval \<Rightarrow> string \<Rightarrow> app_state \<Rightarrow> jsval \<times> app_state" where
  "translateText_p0 self txt sourceLang targetLang s =
     (case capability translator self of
        None \<Rightarrow>
          (JNull, setError ''Feature unavailable: Text translation.''
                    (consoleError ''Translator API not supported.'' s))
      | Some create \<Rightarrow>
          (let cfg = \<lparr>sourceLanguage = sourceLang, targetLanguage = targetLang\<rparr>;
               s1 = called (CreateTranslator cfg) s in
           case create cfg of
             Raises \<Rightarrow>
               (JNull, setError ''Translation failed. Check if the language pair is supported.''
                         (consoleError ''Translation error:'' s1))
           | Returns translate \<Rightarrow>
               (let s2 = called (TranslateCall txt) s1 in
                case translate txt of
                  Raises \<Rightarrow>
                    (JNull, setError ''Translation failed. Check if the language pair is supported.''
                              (consoleError ''Translation error:'' s2))
                | Returns result \<Rightarrow> (result, s2))))"

definition handleSubmit_p0 :: "js_self \<Rightarrow> app_state \<Rightarrow> app_state" where
  "handleSubmit_p0 self s =
     (if trim (inputText s) = [] then setError ''Input field is empty. Please enter some text.'' s
      else
        (let (detected, s1) = detectLanguage_p0 self (inputText s) (setError [] s);
             newMessage = \<lparr>text = inputText s, detectedLanguage = js_or detected (JStr ''Unknown''),
                            summary = JNull, translation = JNull\<rparr>
         in setInputText [] (s1\<lparr>messages := messages s1 @ [newMessage]\<rparr>)))"

definition handleSummarize_p0 :: "js_self \<Rightarrow> nat \<Rightarrow> app_state \<Rightarrow> js_error + app_state" where
  "handleSummarize_p0 self index s =
     (if index < length (messages s) then
        (let message = messages s ! index in
         if text message = [] then Inr s
         else
           (let (summ, s1) = summarizeText_p0 self (text message) s in
            if truthy summ then
              Inr (s1\<lparr>messages := (messages s1)[index := (messages s1 ! index)\<lparr>summary := summ\<rparr>]\<rparr>)
            else Inr s1))
      else Inl TypeError)"

definition handleTranslate_p0 :: "js_self \<Rightarrow> nat \<Rightarrow> app_state \<Rightarrow> js_error + app_state" where
  "handleTranslate_p0 self index s =
     (if index < length (messages s) then
        (let message = messages s ! index in
         if text message = [] then Inr s
         else
           (let (transl, s1) = translateText_p0 self (text message) (detectedLanguage message)
                                 (selectedLanguage s) s in
            if truthy transl then
              Inr (s1\<lparr>messages := (messages s1)[index := (messages s1 ! index)\<lparr>translation := transl\<rparr>]\<rparr>)
            else Inr s1))
      else Inl TypeError)"

section \<open>Rendering\<close>

text \<open>
  What the component returns, reduced to what depends on the state: per message the two
  texts always shown, whether the Summarize button is in the tree, and the summary and
  translation paragraphs, which are in the tree when the field is truthy; then the draft
  and the error paragraph. Both files use the same conditions.
\<close>

record message_view =
  shownText :: string
  shownLanguage :: jsval
  summarizeButton :: bool
  shownSummary :: "jsval option"
  shownTranslation :: "jsval option"

record view =
  items :: "message_view list"
  textarea :: string
  shownError :: "string option"

definition renderMessage_jsx :: "message \<Rightarrow> message_view" where
  "renderMessage_jsx msg =
     \<lparr>shownText = text msg,
      shownLanguage = detectedLanguage msg,
      summarizeButton = (length (text msg) > 150 \<and> detectedLanguage msg = JStr ''en''),
      shownSummary = (if truthy (summary msg) then Some (summary msg) else None),
      shownTranslation = (if truthy (translation msg) then Some (translation msg) else None)\<rparr>"

definition render_jsx :: "app_state \<Rightarrow> view" where
  "render_jsx s =
     \<lparr>items = map renderMessage_jsx (messages s),
      textarea = inputText s,
      shownError = (if error s \<noteq> [] then Some (error s) else None)\<rparr>"

definition renderMessage_p0 :: "message \<Rightarrow> message_view" where
  "renderMessage_p0 msg =
     \<lparr>shownText = text msg,
      shownLanguage = detectedLanguage msg,
      summarizeButton = (length (text msg) > 150 \<and> detectedLanguage msg = JStr ''en''),
      shownSummary = (if truthy (summary msg) then Some (summary msg) else None),
      shownTranslation = (if truthy (translation msg) then Some (translation msg) else None)\<rparr>"

definition render_p0 :: "app_state \<Rightarrow> view" where
  "render_p0 s =
     \<lparr>items = map renderMessage_p0 (messages s),
      textarea = inputText s,
      shownError = (if error s \<noteq> [] then Some (error s) else None)\<rparr>"

section \<open>Sequences of user events\<close>

text \<open>
  The user can type into the textarea, pick a target language, press Send, and press
  Summarize or Translate on a message. Each capability-using event carries the host
  environment it runs in. A handler whose promise rejects leaves the state as it was.
\<close>

datatype operation =
    Change string
  | Select string
  | Submit js_self
  | Summarize js_self nat
  | Translate js_self nat

fun complete_jsx :: "operation \<Rightarrow> app_state \<Rightarrow> app_state" where
  "complete_jsx (Change t) s = setInputText t s"
| "complete_jsx (Select l) s = setSelectedLanguage l s"
| "complete_jsx (Submit self) s = handleSubmit_jsx self s"
| "complete_jsx (Summarize self i) s =
     (case handleSummarize_jsx self i s of Inl e \<Rightarrow> s | Inr s' \<Rightarrow> s')"
| "complete_jsx (Translate self i) s =
     (case handleTranslate_jsx self i s of Inl e \<Rightarrow> s | Inr s' \<Rightarrow> s')"

fun complete_p0 :: "operation \<Rightarrow> app_state \<Rightarrow> app_state" where
  "complete_p0 (Change t) s = setInputText t s"
| "complete_p0 (Select l) s = setSelectedLanguage l s"
| "complete_p0 (Submit self) s = handleSubmit_p0 self s"
| "complete_p0 (Summarize self i) s =
     (case handleSummarize_p0 self i s of Inl e \<Rightarrow> s | Inr s' \<Rightarrow> s')"
| "complete_p0 (Translate self i) s =
     (case handleTranslate_p0 self i s of Inl e \<Rightarrow> s | Inr s' \<Rightarrow> s')"

fun complete_all_jsx :: "operation list \<Rightarrow> app_state \<Rightarrow> app_state" where
  "complete_all_jsx [] s = s"
| "complete_all_jsx (e # es) s = complete_all_jsx es (complete_jsx e s)"

fun complete_all_p0 :: "operation list \<Rightarrow> app_state \<Rightarrow> app_state" where
  "complete_all_p0 [] s = s"
| "complete_all_p0 (e # es) s = complete_all_p0 es (complete_p0 e s)"

text \<open>
  The drafts a sequence of events submits, in order: a Send press submits the current
  draft when it is not blank, and empties the draft.
\<close>

fun submitted :: "string \<Rightarrow> operation list \<Rightarrow> string list" where
  "submitted d [] = []"
| "submitted d (Change t # es) = submitted t es"
| "submitted d (Submit self # es) =
     (if trim d = [] then submitted d es else d # submitted [] es)"
| "submitted d (e # es) = submitted d es"

section \<open>What a capability call comes to\<close>

text \<open>
  The three ways a use of a capability can end, as the specification names them: the host
  does not expose it (\<open>Unavailable\<close>), \<open>create\<close> or the call raised (\<open>Failed\<close>), or
  the call returned a value. These functions only read the environment; the theorems
  below use them to say which case a handler is in.
\<close>

datatype 'a attempt = Unavailable | Failed | Result 'a

definition detector_attempt :: "js_self \<Rightarrow> string \<Rightarrow> detection list attempt" where
  "detector_attempt self txt =
     (case capability languageDetector self of
        None \<Rightarrow> Unavailable
      | Some create \<Rightarrow>
          (case create of
             Raises \<Rightarrow> Failed
           | Returns detect \<Rightarrow>
               (case detect txt of Raises \<Rightarrow> Failed | Returns results \<Rightarrow> Result results)))"

definition summarizer_attempt :: "js_self \<Rightarrow> string \<Rightarrow> jsval attempt" where
  "summarizer_attempt self txt =
     (case capability summarizer self of
        None \<Rightarrow> Unavailable
      | Some create \<Rightarrow>
          (case create summarizer_options of
             Raises \<Rightarrow> Failed
           | Returns summarize \<Rightarrow>
               (case summarize txt of Raises \<Rightarrow> Failed | Returns result \<Rightarrow> Result result)))"

definition translator_attempt :: "js_self \<Rightarrow> translator_config \<Rightarrow> string \<Rightarrow> jsval attempt" where
  "translator_attempt self cfg txt =
     (case capability translator self of
        None \<Rightarrow> Unavailable
      | Some create \<Rightarrow>
          (case create cfg of
             Raises \<Rightarrow> Failed
           | Returns translate \<Rightarrow>
               (case translate txt of Raises \<Rightarrow> Failed | Returns result \<Rightarrow> Result result)))"

section \<open>Example hosts and states\<close>

text \<open>
  Concrete environments and states on which the theorems below are evaluated:
  a host without \<open>self.ai\<close>; a host whose detector answers English, whose summarizer
  ends as given and whose translator ends as a function of the target language; a text
  of 151 characters; the state after that text was submitted and detected as English; a
  state holding three messages, of which only the first is long and English; and the
  state after a blank submission, with its error in the slot.
\<close>

definition no_host :: js_self where
  "no_host = \<lparr>ai = None\<rparr>"

definition host :: "jsval outcome \<Rightarrow> (string \<Rightarrow> jsval outcome) \<Rightarrow> js_self" where
  "host summ transl =
     \<lparr>ai = Some
        \<lparr>languageDetector = Some (Returns (\<lambda>t. Returns [Detection (JStr ''en'') 1])),
         summarizer = Some (\<lambda>cfg. Returns (\<lambda>t. summ)),
         translator = Some (\<lambda>cfg. Returns (\<lambda>t. transl (targetLanguage cfg)))\<rparr>\<rparr>"

definition long_text :: string where
  "long_text = replicate 151 (CHR ''a'')"

definition french_or_spanish :: "string \<Rightarrow> jsval outcome" where
  "french_or_spanish l = Returns (JStr (if l = ''fr'' then ''Bonjour'' else ''Hola''))"

definition posted :: app_state where
  "posted = complete_all_p0 [Change long_text, Submit (host Raises (\<lambda>l. Raises))] initial_state"

definition shown_messages :: app_state where
  "shown_messages =
     initial_state\<lparr>messages :=
       [\<lparr>text = long_text, detectedLanguage = JStr ''en'', summary = JNull, translation = JNull\<rparr>,
        \<lparr>text = take 150 long_text, detectedLanguage = JStr ''en'', summary = JNull, translation = JNull\<rparr>,
        \<lparr>text = long_text, detectedLanguage = JStr ''fr'', summary = JNull, translation = JNull\<rparr>]\<rparr>"

definition stale_error :: app_state where
  "stale_error = complete_all_p0 [Submit no_host] posted"

section \<open>The capability wrappers, case by case\<close>

lemmas state_ops = consoleError_def called_def setError_def setInputText_def setSelectedLanguage_def

lemma detectLanguage_jsx_value:
  "fst (detectLanguage_jsx self txt s) =
     (case detector_attempt self txt of
        Unavailable \<Rightarrow> JNull
      | Failed \<Rightarrow> JNull
      | Result results \<Rightarrow> (case results of [] \<Rightarrow> JNull | r # rs \<Rightarrow> result_detectedLanguage r))"
  by (simp add: detectLanguage_jsx_def detector_attempt_def Let_def
      split: option.splits outcome.splits list.splits)

lemma detectLanguage_jsx_frame:
  "messages (snd (detectLanguage_jsx self txt s)) = messages s"
  "error (snd (detectLanguage_jsx self txt s)) = error s"
  "inputText (snd (detectLanguage_jsx self txt s)) = inputText s"
  "selectedLanguage (snd (detectLanguage_jsx self txt s)) = selectedLanguage s"
  by (simp_all add: detectLanguage_jsx_def state_ops Let_def split: option.splits outcome.splits)

lemma detectLanguage_p0_value:
  "fst (detectLanguage_p0 self txt s) =
     (case detector_attempt self txt of
        Unavailable \<Rightarrow> JNull
      | Failed \<Rightarrow> JNull
      | Result results \<Rightarrow>
          (case results of [] \<Rightarrow> JNull
           | r # rs \<Rightarrow> js_or (result_detectedLanguage r) JNull))"
  by (simp add: detectLanguage_p0_def detector_attempt_def Let_def js_or_def
      split: option.splits outcome.splits list.splits)

lemma detectLanguage_p0_frame:
  "messages (snd (detectLanguage_p0 self txt s)) = messages s"
  "inputText (snd (detectLanguage_p0 self txt s)) = inputText s"
  "selectedLanguage (snd (detectLanguage_p0 self txt s)) = selectedLanguage s"
  by (simp_all add: detectLanguage_p0_def state_ops Let_def split: option.splits outcome.splits)

lemma detectLanguage_p0_error:
  "error (snd (detectLanguage_p0 self txt s)) =
     (case detector_attempt self txt of
        Unavailable \<Rightarrow> ''Feature unavailable: Language detection.''
      | Failed \<Rightarrow> ''Could not detect the language. Please try again.''
      | Result results \<Rightarrow> error s)"
  by (simp add: detectLanguage_p0_def detector_attempt_def state_ops Let_def
      split: option.splits outcome.splits)

lemma summarizeText_jsx_value:
  "fst (summarizeText_jsx self txt s) =
     (case summarizer_attempt self txt of
        Unavailable \<Rightarrow> JNull
      | Failed \<Rightarrow> JStr ''Error in summarization''
      | Result r \<Rightarrow>
          (if truthy r then js_or (opt_prop r ''summary'') r else JStr ''Summarization failed''))"
  by (simp add: summarizeText_jsx_def summarizer_attempt_def Let_def
      split: option.splits outcome.splits)

lemma summarizeText_jsx_frame:
  "messages (snd (summarizeText_jsx self txt s)) = messages s"
  "error (snd (summarizeText_jsx self txt s)) = error s"
  "inputText (snd (summarizeText_jsx self txt s)) = inputText s"
  "selectedLanguage (snd (summarizeText_jsx self txt s)) = selectedLanguage s"
  by (simp_all add: summarizeText_jsx_def state_ops Let_def split: option.splits outcome.splits)

lemma summarizeText_p0_value:
  "fst (summarizeText_p0 self txt s) =
     (case summarizer_attempt self txt of
        Unavailable \<Rightarrow> JNull
      | Failed \<Rightarrow> JNull
      | Result r \<Rightarrow>
          js_or (js_or (opt_prop r ''summary'') r) (JStr ''Failed to generate summary.''))"
  by (simp add: summarizeText_p0_def summarizer_attempt_def Let_def
      split: option.splits outcome.splits)

lemma summarizeText_p0_frame:
  "messages (snd (summarizeText_p0 self txt s)) = messages s"
  "inputText (snd (summarizeText_p0 self txt s)) = inputText s"
  "selectedLanguage (snd (summarizeText_p0 self txt s)) = selectedLanguage s"
  by (simp_all add: summarizeText_p0_def state_ops Let_def split: option.splits outcome.splits)

lemma summarizeText_p0_error:
  "error (snd (summarizeText_p0 self txt s)) =
     (case summarizer_attempt self txt of
        Unavailable \<Rightarrow> ''Feature unavailable: Text summarization.''
      | Failed \<Rightarrow> ''Summarization failed. Please check your input and try again.''
      | Result r \<Rightarrow> error s)"
  by (simp add: summarizeText_p0_def summarizer_attempt_def state_ops Let_def
      split: option.splits outcome.splits)

lemma translateText_jsx_value:
  "fst (translateText_jsx self txt src tgt s) =
     (case translator_attempt self \<lparr>sourceLanguage = src, targetLanguage = tgt\<rparr> txt of
        Unavailable \<Rightarrow> JUndefined
      | Failed \<Rightarrow> JNull
      | Result r \<Rightarrow> r)"
  by (simp add: translateText_jsx_def translator_attempt_def Let_def
      split: option.splits outcome.splits)

lemma translateText_jsx_frame:
  "messages (snd (translateText_jsx self txt src tgt s)) = messages s"
  "error (snd (translateText_jsx self txt src tgt s)) = error s"
  "inputText (snd (translateText_jsx self txt src tgt s)) = inputText s"
  "selectedLanguage (snd (translateText_jsx self txt src tgt s)) = selectedLanguage s"
  by (simp_all add: translateText_jsx_def state_ops Let_def split: option.splits outcome.splits)

lemma translateText_p0_value:
  "fst (translateText_p0 self txt src tgt s) =
     (case translator_attempt self \<lparr>sourceLanguage = src, targetLanguage = tgt\<rparr> txt of
        Unavailable \<Rightarrow> JNull
      | Failed \<Rightarrow> JNull
      | Result r \<Rightarrow> r)"
  by (simp add: translateText_p0_def translator_attempt_def Let_def
      split: option.splits outcome.splits)

lemma translateText_p0_frame:
  "messages (snd (translateText_p0 self txt src tgt s)) = messages s"
  "inputText (snd (translateText_p0 self txt src tgt s)) = inputText s"
  "selectedLanguage (snd (translateText_p0 self txt src tgt s)) = selectedLanguage s"
  by (simp_all add: translateText_p0_def state_ops Let_def split: option.splits outcome.splits)

lemma translateText_p0_error:
  "error (snd (translateText_p0 self txt src tgt s)) =
     (case translator_attempt self \<lparr>sourceLanguage = src, targetLanguage = tgt\<rparr> txt of
        Unavailable \<Rightarrow> ''Feature unavailable: Text translation.''
      | Failed \<Rightarrow> ''Translation failed. Check if the language pair is supported.''
      | Result r \<Rightarrow> error s)"
  by (simp add: translateText_p0_def translator_attempt_def state_ops Let_def
      split: option.splits outcome.splits)

lemma wrapper_console:
  "console (snd (detectLanguage_jsx self txt s)) = console s @
     (case detector_attempt self txt of
        Unavailable \<Rightarrow> [''Language Detector API not supported.'']
      | Failed \<Rightarrow> [''Language detection error:'']
      | Result r \<Rightarrow> [])"
  "console (snd (summarizeText_jsx self txt s)) = console s @
     (case summarizer_attempt self txt of
        Unavailable \<Rightarrow> [''Summarizer API not supported.'']
      | Failed \<Rightarrow> [''Summarization error:'']
      | Result r \<Rightarrow> [])"
  "console (snd (translateText_jsx self txt src tgt s)) = console s @
     (case translator_attempt self \<lparr>sourceLanguage = src, targetLanguage = tgt\<rparr> txt of
        Unavailable \<Rightarrow> [''Translator API not supported.'']
      | Failed \<Rightarrow> [''Translation error:'']
      | Result r \<Rightarrow> [])"
  "console (snd (detectLanguage_p0 self txt s)) = console s @
     (case detector_attempt self txt of
        Unavailable \<Rightarrow> [''Language Detector API not supported.'']
      | Failed \<Rightarrow> [''Language detection error:'']
      | Result r \<Rightarrow> [])"
  "console (snd (summarizeText_p0 self txt s)) = console s @
     (case summarizer_attempt self txt of
        Unavailable \<Rightarrow> [''Summarizer API not supported.'']
      | Failed \<Rightarrow> [''Summarization error:'']
      | Result r \<Rightarrow> [])"
  "console (snd (translateText_p0 self txt src tgt s)) = console s @
     (case translator_attempt self \<lparr>sourceLanguage = src, targetLanguage = tgt\<rparr> txt of
        Unavailable \<Rightarrow> [''Translator API not supported.'']
      | Failed \<Rightarrow> [''Translation error:'']
      | Result r \<Rightarrow> [])"
  by (simp_all add: detectLanguage_jsx_def summarizeText_jsx_def translateText_jsx_def
      detectLanguage_p0_def summarizeText_p0_def translateText_p0_def
      detector_attempt_def summarizer_attempt_def translator_attempt_def
      state_ops Let_def split: option.splits outcome.splits)

lemma summarize_calls:
  "calls (snd (summarizeText_jsx self txt s)) \<in>
     {calls s, calls s @ [CreateSummarizer summarizer_options],
      calls s @ [CreateSummarizer summarizer_options, SummarizeCall txt]}"
  "calls (snd (summarizeText_p0 self txt s)) \<in>
     {calls s, calls s @ [CreateSummarizer summarizer_options],
      calls s @ [CreateSummarizer summarizer_options, SummarizeCall txt]}"
  by (simp_all add: summarizeText_jsx_def summarizeText_p0_def
      state_ops Let_def split: option.splits outcome.splits)

lemma trim_empty_iff: "trim s = [] \<longleftrightarrow> (\<forall>c\<in>set s. is_ws c)"
proof
  assume "trim s = []"
  then have all: "\<forall>c\<in>set (dropWhile is_ws s). is_ws c"
    by (simp add: trim_def)
  have "dropWhile is_ws s = []"
  proof (rule ccontr)
    assume ne: "dropWhile is_ws s \<noteq> []"
    then have "\<not> is_ws (hd (dropWhile is_ws s))" by (rule hd_dropWhile)
    moreover have "hd (dropWhile is_ws s) \<in> set (dropWhile is_ws s)" using ne by simp
    ultimately show False using all by blast
  qed
  then show "\<forall>c\<in>set s. is_ws c" by simp
next
  assume "\<forall>c\<in>set s. is_ws c"
  then show "trim s = []" by (auto simp: trim_def dest: set_dropWhileD)
qed

section \<open>Helper facts for the handlers\<close>

lemmas wrapper_frames =
  summarizeText_jsx_frame summarizeText_p0_frame translateText_jsx_frame translateText_p0_frame

lemma translate_calls:
  "calls (snd (translateText_jsx self txt src tgt s)) \<in>
     {calls s, calls s @ [CreateTranslator \<lparr>sourceLanguage = src, targetLanguage = tgt\<rparr>],
      calls s @ [CreateTranslator \<lparr>sourceLanguage = src, targetLanguage = tgt\<rparr>, TranslateCall txt]}"
  "calls (snd (translateText_p0 self txt src tgt s)) \<in>
     {calls s, calls s @ [CreateTranslator \<lparr>sourceLanguage = src, targetLanguage = tgt\<rparr>],
      calls s @ [CreateTranslator \<lparr>sourceLanguage = src, targetLanguage = tgt\<rparr>, TranslateCall txt]}"
  by (simp_all add: translateText_jsx_def translateText_p0_def
      state_ops Let_def split: option.splits outcome.splits)

lemma dropWhile_replicate_keep: "\<not> P c \<Longrightarrow> dropWhile P (replicate n c) = replicate n c"
  by (cases n) simp_all

lemma trim_long_text: "trim long_text = long_text"
  by (simp add: trim_def long_text_def dropWhile_replicate_keep is_ws_def)

lemma long_text_nonempty: "long_text \<noteq> []"
  by (simp add: long_text_def)

lemma length_long_text: "length long_text = 151"
  by (simp add: long_text_def)

lemmas run_defs =
  handleSubmit_jsx_def handleSubmit_p0_def handleSummarize_jsx_def handleSummarize_p0_def
  handleTranslate_jsx_def handleTranslate_p0_def
  detectLanguage_jsx_def detectLanguage_p0_def summarizeText_jsx_def summarizeText_p0_def
  translateText_jsx_def translateText_p0_def
  capability_def state_ops initial_state_def js_or_def Let_def host_def no_host_def
  trim_long_text long_text_nonempty

lemma posted_facts:
  "messages posted =
     [\<lparr>text = long_text, detectedLanguage = JStr ''en'', summary = JNull, translation = JNull\<rparr>]"
  "error posted = []"
  "console posted = []"
  "selectedLanguage posted = ''en''"
  "inputText posted = []"
  by (simp_all add: posted_def run_defs)

lemma stale_error_facts:
  "messages stale_error = messages posted"
  "error stale_error = ''Input field is empty. Please enter some text.''"
  "selectedLanguage stale_error = ''en''"
  by (simp_all add: stale_error_def posted_facts handleSubmit_p0_def setError_def trim_def)

section \<open>What every event keeps\<close>

lemma map_field_update_same:
  assumes "f y = f (xs ! i)"
  shows "map f (xs[i := y]) = map f xs"
proof (cases "i < length xs")
  case True
  with assms have "(map f xs)[i := f y] = map f xs"
    by (simp add: list_update_same_conv)
  then show ?thesis by (simp add: map_update)
next
  case False
  then show ?thesis by (simp add: not_less list_update_beyond)
qed

lemma button_handlers_keep:
  assumes "h = handleSummarize_jsx self i s \<or> h = handleSummarize_p0 self i s
         \<or> h = handleTranslate_jsx self i s \<or> h = handleTranslate_p0 self i s"
    and "h = Inr s'"
  shows "inputText s' = inputText s"
    and "map text (messages s') = map text (messages s)"
    and "map detectedLanguage (messages s') = map detectedLanguage (messages s)"
    and "length (messages s') = length (messages s)"
  using assms
  by (auto simp: handleSummarize_jsx_def handleSummarize_p0_def handleTranslate_jsx_def
      handleTranslate_p0_def case_prod_beta Let_def wrapper_frames detectLanguage_jsx_frame
      map_field_update_same split: if_splits)

lemma step_button_keep:
  assumes "e = Summarize self i \<or> e = Translate self i"
  shows "inputText (complete_jsx e s) = inputText s"
    and "map text (messages (complete_jsx e s)) = map text (messages s)"
    and "map detectedLanguage (messages (complete_jsx e s)) = map detectedLanguage (messages s)"
    and "inputText (complete_p0 e s) = inputText s"
    and "map text (messages (complete_p0 e s)) = map text (messages s)"
    and "map detectedLanguage (messages (complete_p0 e s)) = map detectedLanguage (messages s)"
    and "length (messages (complete_jsx e s)) = length (messages s)"
    and "length (messages (complete_p0 e s)) = length (messages s)"
  using assms button_handlers_keep [of _ self i s]
  by (auto split: sum.splits)

lemma submit_blank_keep:
  assumes "trim (inputText s) = []"
  shows "inputText (handleSubmit_jsx self s) = inputText s"
    and "messages (handleSubmit_jsx self s) = messages s"
    and "inputText (handleSubmit_p0 self s) = inputText s"
    and "messages (handleSubmit_p0 self s) = messages s"
  using assms by (simp_all add: handleSubmit_jsx_def handleSubmit_p0_def setError_def)

lemma submit_appends:
  assumes "trim (inputText s) \<noteq> []"
  shows "inputText (handleSubmit_jsx self s) = []"
    and "\<exists>m. text m = inputText s \<and> messages (handleSubmit_jsx self s) = messages s @ [m]"
    and "inputText (handleSubmit_p0 self s) = []"
    and "\<exists>m. text m = inputText s \<and> messages (handleSubmit_p0 self s) = messages s @ [m]"
  using assms
  by (simp_all add: handleSubmit_jsx_def handleSubmit_p0_def setError_def setInputText_def
      case_prod_beta Let_def detectLanguage_jsx_frame detectLanguage_p0_frame)

lemma complete_all_jsx_texts:
  "map text (messages (complete_all_jsx es s)) = map text (messages s) @ submitted (inputText s) es"
proof (induction es arbitrary: s)
  case Nil
  show ?case by simp
next
  case (Cons e es)
  show ?case
  proof (cases e)
    case (Change t)
    then show ?thesis using Cons.IH [of "setInputText t s"] by (simp add: setInputText_def)
  next
    case (Select l)
    then show ?thesis using Cons.IH [of "setSelectedLanguage l s"] by (simp add: setSelectedLanguage_def)
  next
    case (Submit self)
    show ?thesis
    proof (cases "trim (inputText s) = []")
      case True
      then show ?thesis
        using Submit Cons.IH [of "handleSubmit_jsx self s"] by (simp add: submit_blank_keep)
    next
      case False
      from submit_appends(2) [OF False, of self] obtain m where
        m: "text m = inputText s" "messages (handleSubmit_jsx self s) = messages s @ [m]" by blast
      show ?thesis
        using False Submit m Cons.IH [of "handleSubmit_jsx self s"]
        by (simp add: submit_appends(1))
    qed
  next
    case (Summarize self i)
    then show ?thesis
      using Cons.IH [of "complete_jsx e s"] step_button_keep(1,2) [of e self i s] by simp
  next
    case (Translate self i)
    then show ?thesis
      using Cons.IH [of "complete_jsx e s"] step_button_keep(1,2) [of e self i s] by simp
  qed
qed

lemma complete_all_p0_texts:
  "map text (messages (complete_all_p0 es s)) = map text (messages s) @ submitted (inputText s) es"
proof (induction es arbitrary: s)
  case Nil
  show ?case by simp
next
  case (Cons e es)
  show ?case
  proof (cases e)
    case (Change t)
    then show ?thesis using Cons.IH [of "setInputText t s"] by (simp add: setInputText_def)
  next
    case (Select l)
    then show ?thesis using Cons.IH [of "setSelectedLanguage l s"] by (simp add: setSelectedLanguage_def)
  next
    case (Submit self)
    show ?thesis
    proof (cases "trim (inputText s) = []")
      case True
      then show ?thesis
        using Submit Cons.IH [of "handleSubmit_p0 self s"] by (simp add: submit_blank_keep)
    next
      case False
      from submit_appends(4) [OF False, of self] obtain m where
        m: "text m = inputText s" "messages (handleSubmit_p0 self s) = messages s @ [m]" by blast
      show ?thesis
        using False Submit m Cons.IH [of "handleSubmit_p0 self s"]
        by (simp add: submit_appends(3))
    qed
  next
    case (Summarize self i)
    then show ?thesis
      using Cons.IH [of "complete_p0 e s"] step_button_keep(4,5) [of e self i s] by simp
  next
    case (Translate self i)
    then show ?thesis
      using Cons.IH [of "complete_p0 e s"] step_button_keep(4,5) [of e self i s] by simp
  qed
qed








lemma trim_Nil: "trim [] = []"
  by (simp add: trim_def)

lemma submitted_nonblank: "t \<in> set (submitted d es) \<Longrightarrow> trim t \<noteq> []"
  by (induction d es rule: submitted.induct) (auto split: if_splits)

lemma run_texts_nonempty:
  assumes "\<forall>m\<in>set (messages s). text m \<noteq> []"
  shows "\<forall>m\<in>set (messages (complete_all_jsx es s)). text m \<noteq> []"
    and "\<forall>m\<in>set (messages (complete_all_p0 es s)). text m \<noteq> []"
proof -
  have sub: "\<forall>t\<in>set (submitted (inputText s) es). t \<noteq> []"
    using submitted_nonblank trim_Nil by blast
  have "\<forall>t\<in>set (map text (messages (complete_all_jsx es s))). t \<noteq> []"
    unfolding complete_all_jsx_texts using assms sub by auto
  then show "\<forall>m\<in>set (messages (complete_all_jsx es s)). text m \<noteq> []" by simp
  have "\<forall>t\<in>set (map text (messages (complete_all_p0 es s))). t \<noteq> []"
    unfolding complete_all_p0_texts using assms sub by auto
  then show "\<forall>m\<in>set (messages (complete_all_p0 es s)). text m \<noteq> []" by simp
qed

section \<open>Submitting\<close>

text \<open>
  C1, as the code has it. A submission with a non-blank draft whose detection is unavailable,
  fails, or returns no result appends one message. In \<open>App.jsx\<close> its \<open>detectedLanguage\<close>
  is \<open>null\<close>; in \<open>part_000\<close> its \<open>language\<close> is the string \<open>"Unknown"\<close>, with a
  capital U.
\<close>

theorem C1_undetected_language_value:
  assumes "trim (inputText s) \<noteq> []"
    and "detector_attempt self (inputText s) = Unavailable
       \<or> detector_attempt self (inputText s) = Failed
       \<or> detector_attempt self (inputText s) = Result []"
  shows "messages (handleSubmit_jsx self s) =
           messages s @ [\<lparr>text = inputText s, detectedLanguage = JNull,
                          summary = JStr [], translation = JStr []\<rparr>]
       \<and> messages (handleSubmit_p0 self s) =
           messages s @ [\<lparr>text = inputText s, detectedLanguage = JStr ''Unknown'',
                          summary = JNull, translation = JNull\<rparr>]"
proof -
  have j: "fst (detectLanguage_jsx self (inputText s) (setError [] s)) = JNull"
    using assms(2) by (auto simp: detectLanguage_jsx_value)
  have p: "fst (detectLanguage_p0 self (inputText s) (setError [] s)) = JNull"
    using assms(2) by (auto simp: detectLanguage_p0_value)
  have m: "messages (setError [] s) = messages s"
    by (simp add: setError_def)
  show ?thesis
    using assms(1) j p m
    by (simp add: handleSubmit_jsx_def handleSubmit_p0_def case_prod_beta Let_def
        setInputText_def detectLanguage_jsx_frame detectLanguage_p0_frame js_or_def)
qed

theorem C1_undetected_language_value_witness:
  "trim (inputText (setInputText ''Hello'' initial_state)) \<noteq> []
   \<and> detector_attempt \<lparr>ai = None\<rparr> ''Hello'' = Unavailable
   \<and> messages (handleSubmit_jsx \<lparr>ai = None\<rparr> (setInputText ''Hello'' initial_state)) =
       [\<lparr>text = ''Hello'', detectedLanguage = JNull, summary = JStr [], translation = JStr []\<rparr>]
   \<and> messages (handleSubmit_p0 \<lparr>ai = None\<rparr> (setInputText ''Hello'' initial_state)) =
       [\<lparr>text = ''Hello'', detectedLanguage = JStr ''Unknown'', summary = JNull, translation = JNull\<rparr>]"
proof -
  have t: "trim (inputText (setInputText ''Hello'' initial_state)) \<noteq> []"
    by (simp add: trim_def is_ws_def setInputText_def initial_state_def)
  have d: "detector_attempt \<lparr>ai = None\<rparr> (inputText (setInputText ''Hello'' initial_state)) = Unavailable"
    by (simp add: detector_attempt_def capability_def)
  show ?thesis
    using t d C1_undetected_language_value [OF t disjI1, OF d]
    by (simp add: setInputText_def initial_state_def)
qed

text \<open>
  C1 as stated fails: with detection unavailable, submitting \<open>"Hello"\<close> stores
  \<open>"Unknown"\<close> in \<open>part_000\<close> and \<open>null\<close> in \<open>App.jsx\<close>, neither of which is the
  string \<open>"unknown"\<close>.
\<close>

theorem C1_sentinel_counterexample:
  "detectedLanguage (last (messages (handleSubmit_p0 \<lparr>ai = None\<rparr> (setInputText ''Hello'' initial_state))))
     = JStr ''Unknown''
   \<and> detectedLanguage (last (messages (handleSubmit_p0 \<lparr>ai = None\<rparr> (setInputText ''Hello'' initial_state))))
     \<noteq> JStr ''unknown''
   \<and> detectedLanguage (last (messages (handleSubmit_jsx \<lparr>ai = None\<rparr> (setInputText ''Hello'' initial_state))))
     = JNull"
  by (simp add: handleSubmit_p0_def handleSubmit_jsx_def detectLanguage_p0_def detectLanguage_jsx_def
      capability_def state_ops initial_state_def trim_def is_ws_def js_or_def Let_def)

text \<open>
  C3. When the draft is empty after trimming, \<open>handleSubmit\<close> leaves the message list as
  it was (no message is appended) and writes its validation message to the error slot,
  which the component then renders. This holds in both revisions.
\<close>

theorem C3_blank_submission_rejected:
  assumes "trim (inputText s) = []"
  shows "messages (handleSubmit_jsx self s) = messages s
       \<and> error (handleSubmit_jsx self s) = ''Please enter text before submitting.''
       \<and> shownError (render_jsx (handleSubmit_jsx self s)) = Some ''Please enter text before submitting.''
       \<and> messages (handleSubmit_p0 self s) = messages s
       \<and> error (handleSubmit_p0 self s) = ''Input field is empty. Please enter some text.''
       \<and> shownError (render_p0 (handleSubmit_p0 self s)) = Some ''Input field is empty. Please enter some text.''"
  using assms by (simp add: handleSubmit_jsx_def handleSubmit_p0_def setError_def render_jsx_def render_p0_def)

theorem C3_blank_submission_rejected_witness:
  "trim (inputText (initial_state\<lparr>inputText := [CHR 0x20, CHR 0x09, CHR 0x0A]\<rparr>)) = []
   \<and> messages (handleSubmit_jsx \<lparr>ai = None\<rparr> (initial_state\<lparr>inputText := [CHR 0x20, CHR 0x09, CHR 0x0A]\<rparr>)) = []
   \<and> error (handleSubmit_jsx \<lparr>ai = None\<rparr> (initial_state\<lparr>inputText := [CHR 0x20, CHR 0x09, CHR 0x0A]\<rparr>)) \<noteq> []
   \<and> messages (handleSubmit_p0 \<lparr>ai = None\<rparr> (initial_state\<lparr>inputText := [CHR 0x20, CHR 0x09, CHR 0x0A]\<rparr>)) = []
   \<and> error (handleSubmit_p0 \<lparr>ai = None\<rparr> (initial_state\<lparr>inputText := [CHR 0x20, CHR 0x09, CHR 0x0A]\<rparr>)) \<noteq> []"
proof -
  have h: "trim (inputText (initial_state\<lparr>inputText := [CHR 0x20, CHR 0x09, CHR 0x0A]\<rparr>)) = []"
    by (simp add: trim_def is_ws_def)
  show ?thesis
    using h C3_blank_submission_rejected [OF h, of "\<lparr>ai = None\<rparr>"]
    by (simp add: initial_state_def)
qed

section \<open>Summarizing\<close>

text \<open>
  C2, as the code has it, for a message with non-empty text (every submitted message has
  one, by \<open>run_texts_nonempty\<close>). \<open>part_000\<close>: when the summarizer is unavailable or raises, the
  message list is unchanged, the error slot holds a message that is rendered, one line
  goes to the console, and the capability was created at most once and called at most
  once. \<open>App.jsx\<close>: when the summarizer is unavailable, the message list and the error
  slot are unchanged, one line goes to the console and no call is made; when it raises,
  the string \<open>"Error in summarization"\<close> is stored as the message's summary, the error
  slot is unchanged, and the capability was created once and called at most once.
\<close>

theorem C2_summarize_failure:
  assumes "index < length (messages s)"
    and "text (messages s ! index) \<noteq> []"
  shows "(summarizer_attempt self (text (messages s ! index)) = Unavailable
          \<or> summarizer_attempt self (text (messages s ! index)) = Failed \<longrightarrow>
          (\<exists>s'. handleSummarize_p0 self index s = Inr s'
             \<and> messages s' = messages s
             \<and> error s' \<noteq> []
             \<and> shownError (render_p0 s') = Some (error s')
             \<and> (\<exists>msg. msg \<noteq> [] \<and> console s' = console s @ [msg])
             \<and> calls s' \<in> {calls s, calls s @ [CreateSummarizer summarizer_options],
                  calls s @ [CreateSummarizer summarizer_options,
                             SummarizeCall (text (messages s ! index))]}))
       \<and> (summarizer_attempt self (text (messages s ! index)) = Unavailable \<longrightarrow>
          (\<exists>s'. handleSummarize_jsx self index s = Inr s'
             \<and> messages s' = messages s
             \<and> error s' = error s
             \<and> console s' = console s @ [''Summarizer API not supported.'']
             \<and> calls s' = calls s))
       \<and> (summarizer_attempt self (text (messages s ! index)) = Failed \<longrightarrow>
          (\<exists>s'. handleSummarize_jsx self index s = Inr s'
             \<and> messages s' =
                 (messages s)[index := (messages s ! index)\<lparr>summary := JStr ''Error in summarization''\<rparr>]
             \<and> error s' = error s
             \<and> console s' = console s @ [''Summarization error:'']
             \<and> calls s' \<in> {calls s @ [CreateSummarizer summarizer_options],
                  calls s @ [CreateSummarizer summarizer_options,
                             SummarizeCall (text (messages s ! index))]}))"
proof -
  let ?t = "text (messages s ! index)"
  let ?a = "summarizer_attempt self ?t"
  have p: "handleSummarize_p0 self index s =
      (if truthy (fst (summarizeText_p0 self ?t s))
       then Inr ((snd (summarizeText_p0 self ?t s))\<lparr>messages :=
              (messages s)[index := (messages s ! index)\<lparr>summary := fst (summarizeText_p0 self ?t s)\<rparr>]\<rparr>)
       else Inr (snd (summarizeText_p0 self ?t s)))"
    using assms by (simp add: handleSummarize_p0_def case_prod_beta Let_def wrapper_frames)
  have j: "handleSummarize_jsx self index s =
      (if truthy (fst (summarizeText_jsx self ?t s))
       then Inr ((snd (summarizeText_jsx self ?t s))\<lparr>messages :=
              (messages s)[index := (messages s ! index)\<lparr>summary := fst (summarizeText_jsx self ?t s)\<rparr>]\<rparr>)
       else Inr (snd (summarizeText_jsx self ?t s)))"
    using assms by (simp add: handleSummarize_jsx_def case_prod_beta Let_def wrapper_frames)
  have 1: "?a = Unavailable \<or> ?a = Failed \<longrightarrow>
          (\<exists>s'. handleSummarize_p0 self index s = Inr s'
             \<and> messages s' = messages s
             \<and> error s' \<noteq> []
             \<and> shownError (render_p0 s') = Some (error s')
             \<and> (\<exists>msg. msg \<noteq> [] \<and> console s' = console s @ [msg])
             \<and> calls s' \<in> {calls s, calls s @ [CreateSummarizer summarizer_options],
                  calls s @ [CreateSummarizer summarizer_options, SummarizeCall ?t]})"
    using summarize_calls(2) [of self ?t s]
    by (auto simp: p summarizeText_p0_value summarizeText_p0_error wrapper_console
        wrapper_frames render_p0_def)
  have cj: "?a = Unavailable \<longrightarrow> calls (snd (summarizeText_jsx self ?t s)) = calls s"
    by (simp add: summarizeText_jsx_def summarizer_attempt_def Let_def state_ops
        split: option.splits outcome.splits)
  have 2: "?a = Unavailable \<longrightarrow>
          (\<exists>s'. handleSummarize_jsx self index s = Inr s'
             \<and> messages s' = messages s
             \<and> error s' = error s
             \<and> console s' = console s @ [''Summarizer API not supported.'']
             \<and> calls s' = calls s)"
    using cj by (simp add: j summarizeText_jsx_value wrapper_console wrapper_frames)
  have fj: "?a = Failed \<longrightarrow> calls (snd (summarizeText_jsx self ?t s)) \<in>
       {calls s @ [CreateSummarizer summarizer_options],
        calls s @ [CreateSummarizer summarizer_options, SummarizeCall ?t]}"
    by (simp add: summarizeText_jsx_def summarizer_attempt_def Let_def state_ops
        split: option.splits outcome.splits)
  have 3: "?a = Failed \<longrightarrow>
          (\<exists>s'. handleSummarize_jsx self index s = Inr s'
             \<and> messages s' =
                 (messages s)[index := (messages s ! index)\<lparr>summary := JStr ''Error in summarization''\<rparr>]
             \<and> error s' = error s
             \<and> console s' = console s @ [''Summarization error:'']
             \<and> calls s' \<in> {calls s @ [CreateSummarizer summarizer_options],
                  calls s @ [CreateSummarizer summarizer_options, SummarizeCall ?t]})"
    using fj by (simp add: j summarizeText_jsx_value wrapper_console wrapper_frames)
  show ?thesis using 1 2 3 by blast
qed

theorem C2_summarize_failure_witness:
  "(\<exists>s'. handleSummarize_p0 no_host 0 posted = Inr s'
      \<and> messages s' = messages posted \<and> error s' \<noteq> [])
   \<and> (\<exists>s'. handleSummarize_p0 (host Raises (\<lambda>l. Raises)) 0 posted = Inr s'
      \<and> messages s' = messages posted \<and> error s' \<noteq> [])
   \<and> (\<exists>s'. handleSummarize_jsx no_host 0 posted = Inr s'
      \<and> messages s' = messages posted \<and> error s' = [])
   \<and> (\<exists>s'. handleSummarize_jsx (host Raises (\<lambda>l. Raises)) 0 posted = Inr s'
      \<and> summary (messages s' ! 0) = JStr ''Error in summarization'' \<and> error s' = [])"
proof -
  have a: "0 < length (messages posted)"
    by (simp add: posted_facts long_text_nonempty)
  have b: "text (messages posted ! 0) \<noteq> []"
    by (simp add: posted_facts long_text_nonempty)
  have u: "summarizer_attempt no_host (text (messages posted ! 0)) = Unavailable"
    by (simp add: summarizer_attempt_def no_host_def capability_def)
  have f: "summarizer_attempt (host Raises (\<lambda>l. Raises)) (text (messages posted ! 0)) = Failed"
    by (simp add: summarizer_attempt_def host_def capability_def)
  have e: "error posted = []"
    by (simp add: posted_facts long_text_nonempty)
  show ?thesis
    using C2_summarize_failure [OF a b, of no_host]
          C2_summarize_failure [OF a b, of "host Raises (\<lambda>l. Raises)"] u f e a
    by auto
qed

text \<open>
  C2 as stated fails in \<open>App.jsx\<close>: after typing a text, submitting it and pressing
  Summarize on a host whose summarizer raises, the summary that was empty is
  \<open>"Error in summarization"\<close>, and the error slot is empty.
\<close>

theorem C2_raised_summary_counterexample:
  "summary (messages (complete_all_jsx [Change long_text, Submit (host Raises (\<lambda>l. Raises))]
                        initial_state) ! 0) = JStr []
   \<and> summary (messages (complete_all_jsx [Change long_text, Submit (host Raises (\<lambda>l. Raises)),
                                Summarize (host Raises (\<lambda>l. Raises)) 0]
                        initial_state) ! 0) = JStr ''Error in summarization''
   \<and> error (complete_all_jsx [Change long_text, Submit (host Raises (\<lambda>l. Raises)),
                     Summarize (host Raises (\<lambda>l. Raises)) 0] initial_state) = []"
  by (simp add: run_defs)

text \<open>
  C4. When the summarizer returns a non-empty string for the text of message \<open>index\<close>
  (a non-empty text, as every submitted message has by \<open>run_texts_nonempty\<close>),
  \<open>handleSummarize\<close> stores that string in the message's \<open>summary\<close> and changes nothing
  else: the message keeps its \<open>text\<close>, \<open>translation\<close> and \<open>detectedLanguage\<close>, the
  list keeps its length, and every other message is the same. Both revisions.
\<close>

theorem C4_summarize_success_frame:
  assumes "index < length (messages s)"
    and "text (messages s ! index) \<noteq> []"
    and "summarizer_attempt self (text (messages s ! index)) = Result (JStr r)"
    and "r \<noteq> []"
  shows "(\<exists>s'. handleSummarize_jsx self index s = Inr s'
            \<and> summary (messages s' ! index) = JStr r
            \<and> text (messages s' ! index) = text (messages s ! index)
            \<and> translation (messages s' ! index) = translation (messages s ! index)
            \<and> detectedLanguage (messages s' ! index) = detectedLanguage (messages s ! index)
            \<and> length (messages s') = length (messages s)
            \<and> (\<forall>j<length (messages s). j \<noteq> index \<longrightarrow> messages s' ! j = messages s ! j))
       \<and> (\<exists>s'. handleSummarize_p0 self index s = Inr s'
            \<and> summary (messages s' ! index) = JStr r
            \<and> text (messages s' ! index) = text (messages s ! index)
            \<and> translation (messages s' ! index) = translation (messages s ! index)
            \<and> detectedLanguage (messages s' ! index) = detectedLanguage (messages s ! index)
            \<and> length (messages s') = length (messages s)
            \<and> (\<forall>j<length (messages s). j \<noteq> index \<longrightarrow> messages s' ! j = messages s ! j))"
proof -
  let ?t = "text (messages s ! index)"
  have vj: "fst (summarizeText_jsx self ?t s) = JStr r"
    using assms(3,4) by (simp add: summarizeText_jsx_value js_or_def)
  have vp: "fst (summarizeText_p0 self ?t s) = JStr r"
    using assms(3,4) by (simp add: summarizeText_p0_value js_or_def)
  have "\<exists>s'. handleSummarize_jsx self index s = Inr s'
          \<and> messages s' = (messages s)[index := (messages s ! index)\<lparr>summary := JStr r\<rparr>]"
    using assms(1,2,4) vj
    by (simp add: handleSummarize_jsx_def case_prod_beta Let_def wrapper_frames)
  moreover have "\<exists>s'. handleSummarize_p0 self index s = Inr s'
          \<and> messages s' = (messages s)[index := (messages s ! index)\<lparr>summary := JStr r\<rparr>]"
    using assms(1,2,4) vp
    by (simp add: handleSummarize_p0_def case_prod_beta Let_def wrapper_frames)
  ultimately show ?thesis
    using assms(1) by auto
qed

theorem C4_summarize_success_frame_witness:
  "(\<exists>s'. handleSummarize_jsx (host (Returns (JStr ''Hi'')) (\<lambda>l. Raises)) 0 posted = Inr s'
      \<and> messages s' = [\<lparr>text = long_text, detectedLanguage = JStr ''en'',
                         summary = JStr ''Hi'', translation = JNull\<rparr>])
   \<and> (\<exists>s'. handleSummarize_p0 (host (Returns (JStr ''Hi'')) (\<lambda>l. Raises)) 0 posted = Inr s'
      \<and> messages s' = [\<lparr>text = long_text, detectedLanguage = JStr ''en'',
                         summary = JStr ''Hi'', translation = JNull\<rparr>])"
proof -
  have a: "0 < length (messages posted)"
    by (simp add: posted_facts long_text_nonempty)
  have b: "text (messages posted ! 0) \<noteq> []"
    by (simp add: posted_facts long_text_nonempty)
  have c: "summarizer_attempt (host (Returns (JStr ''Hi'')) (\<lambda>l. Raises))
             (text (messages posted ! 0)) = Result (JStr ''Hi'')"
    by (simp add: summarizer_attempt_def host_def capability_def)
  have d: "''Hi'' \<noteq> []" by simp
  have m: "messages posted =
      [\<lparr>text = long_text, detectedLanguage = JStr ''en'', summary = JNull, translation = JNull\<rparr>]"
    by (simp add: posted_facts long_text_nonempty)
  from C4_summarize_success_frame [OF a b c d]
  obtain sj sp where
    j: "handleSummarize_jsx (host (Returns (JStr ''Hi'')) (\<lambda>l. Raises)) 0 posted = Inr sj"
       "summary (messages sj ! 0) = JStr ''Hi''"
       "text (messages sj ! 0) = text (messages posted ! 0)"
       "translation (messages sj ! 0) = translation (messages posted ! 0)"
       "detectedLanguage (messages sj ! 0) = detectedLanguage (messages posted ! 0)"
       "length (messages sj) = length (messages posted)" and
    p: "handleSummarize_p0 (host (Returns (JStr ''Hi'')) (\<lambda>l. Raises)) 0 posted = Inr sp"
       "summary (messages sp ! 0) = JStr ''Hi''"
       "text (messages sp ! 0) = text (messages posted ! 0)"
       "translation (messages sp ! 0) = translation (messages posted ! 0)"
       "detectedLanguage (messages sp ! 0) = detectedLanguage (messages posted ! 0)"
       "length (messages sp) = length (messages posted)"
    by blast
  have "messages sj = [\<lparr>text = long_text, detectedLanguage = JStr ''en'',
                         summary = JStr ''Hi'', translation = JNull\<rparr>]"
    using j(2-6) m by (cases "messages sj") (auto intro: message.equality)
  moreover have "messages sp = [\<lparr>text = long_text, detectedLanguage = JStr ''en'',
                         summary = JStr ''Hi'', translation = JNull\<rparr>]"
    using p(2-6) m by (cases "messages sp") (auto intro: message.equality)
  ultimately show ?thesis using j(1) p(1) by simp
qed

section \<open>Translating\<close>

text \<open>
  C5. Two successful translations of message \<open>index\<close> (with non-empty text) in a row,
  each returning a non-empty string, the target language being chosen before each: after the second, the message's \<open>translation\<close> is the second
  result alone, and the list is the original one with that single field replaced. Both
  revisions.
\<close>

theorem C5_translation_overwritten:
  assumes "index < length (messages s)"
    and "text (messages s ! index) \<noteq> []"
    and "translator_attempt self1
           \<lparr>sourceLanguage = detectedLanguage (messages s ! index), targetLanguage = l1\<rparr>
           (text (messages s ! index)) = Result (JStr r1)"
    and "translator_attempt self2
           \<lparr>sourceLanguage = detectedLanguage (messages s ! index), targetLanguage = l2\<rparr>
           (text (messages s ! index)) = Result (JStr r2)"
    and "r1 \<noteq> []" and "r2 \<noteq> []"
  shows "(\<exists>s1 s2. handleTranslate_jsx self1 index (setSelectedLanguage l1 s) = Inr s1
            \<and> handleTranslate_jsx self2 index (setSelectedLanguage l2 s1) = Inr s2
            \<and> translation (messages s1 ! index) = JStr r1
            \<and> translation (messages s2 ! index) = JStr r2
            \<and> messages s2 = (messages s)[index := (messages s ! index)\<lparr>translation := JStr r2\<rparr>])
       \<and> (\<exists>s1 s2. handleTranslate_p0 self1 index (setSelectedLanguage l1 s) = Inr s1
            \<and> handleTranslate_p0 self2 index (setSelectedLanguage l2 s1) = Inr s2
            \<and> translation (messages s1 ! index) = JStr r1
            \<and> translation (messages s2 ! index) = JStr r2
            \<and> messages s2 = (messages s)[index := (messages s ! index)\<lparr>translation := JStr r2\<rparr>])"
proof -
  let ?m = "messages s ! index"
  have j1: "\<exists>s1. handleTranslate_jsx self1 index (setSelectedLanguage l1 s) = Inr s1
            \<and> messages s1 = (messages s)[index := ?m\<lparr>translation := JStr r1\<rparr>]"
    using assms(1,3,5)
    by (simp add: handleTranslate_jsx_def case_prod_beta Let_def wrapper_frames
        translateText_jsx_value setSelectedLanguage_def)
  then obtain s1 where s1: "handleTranslate_jsx self1 index (setSelectedLanguage l1 s) = Inr s1"
    "messages s1 = (messages s)[index := ?m\<lparr>translation := JStr r1\<rparr>]" by blast
  have j2: "\<exists>s2. handleTranslate_jsx self2 index (setSelectedLanguage l2 s1) = Inr s2
            \<and> messages s2 = (messages s)[index := ?m\<lparr>translation := JStr r2\<rparr>]"
    using assms(1,4,6) s1(2)
    by (simp add: handleTranslate_jsx_def case_prod_beta Let_def wrapper_frames
        translateText_jsx_value setSelectedLanguage_def)
  have p1: "\<exists>t1. handleTranslate_p0 self1 index (setSelectedLanguage l1 s) = Inr t1
            \<and> messages t1 = (messages s)[index := ?m\<lparr>translation := JStr r1\<rparr>]"
    using assms(1,2,3,5)
    by (simp add: handleTranslate_p0_def case_prod_beta Let_def wrapper_frames
        translateText_p0_value setSelectedLanguage_def)
  then obtain t1 where t1: "handleTranslate_p0 self1 index (setSelectedLanguage l1 s) = Inr t1"
    "messages t1 = (messages s)[index := ?m\<lparr>translation := JStr r1\<rparr>]" by blast
  have p2: "\<exists>t2. handleTranslate_p0 self2 index (setSelectedLanguage l2 t1) = Inr t2
            \<and> messages t2 = (messages s)[index := ?m\<lparr>translation := JStr r2\<rparr>]"
    using assms(1,2,4,6) t1(2)
    by (simp add: handleTranslate_p0_def case_prod_beta Let_def wrapper_frames
        translateText_p0_value setSelectedLanguage_def)
  from j2 obtain s2 where s2: "handleTranslate_jsx self2 index (setSelectedLanguage l2 s1) = Inr s2"
    "messages s2 = (messages s)[index := ?m\<lparr>translation := JStr r2\<rparr>]" by blast
  from p2 obtain t2 where t2: "handleTranslate_p0 self2 index (setSelectedLanguage l2 t1) = Inr t2"
    "messages t2 = (messages s)[index := ?m\<lparr>translation := JStr r2\<rparr>]" by blast
  have "translation (messages s1 ! index) = JStr r1" "translation (messages s2 ! index) = JStr r2"
       "translation (messages t1 ! index) = JStr r1" "translation (messages t2 ! index) = JStr r2"
    using assms(1) s1(2) s2(2) t1(2) t2(2) by simp_all
  then show ?thesis using s1 s2 t1 t2 by blast
qed

theorem C5_translation_overwritten_witness:
  "(\<exists>s1 s2. handleTranslate_jsx (host Raises french_or_spanish) 0
               (setSelectedLanguage ''fr'' posted) = Inr s1
      \<and> handleTranslate_jsx (host Raises french_or_spanish) 0
               (setSelectedLanguage ''es'' s1) = Inr s2
      \<and> translation (messages s1 ! 0) = JStr ''Bonjour''
      \<and> translation (messages s2 ! 0) = JStr ''Hola'')
   \<and> (\<exists>s1 s2. handleTranslate_p0 (host Raises french_or_spanish) 0
               (setSelectedLanguage ''fr'' posted) = Inr s1
      \<and> handleTranslate_p0 (host Raises french_or_spanish) 0
               (setSelectedLanguage ''es'' s1) = Inr s2
      \<and> translation (messages s1 ! 0) = JStr ''Bonjour''
      \<and> translation (messages s2 ! 0) = JStr ''Hola'')"
proof -
  have a: "0 < length (messages posted)"
    by (simp add: posted_facts long_text_nonempty)
  have b: "text (messages posted ! 0) \<noteq> []"
    by (simp add: posted_facts long_text_nonempty)
  have c1: "translator_attempt (host Raises french_or_spanish)
             \<lparr>sourceLanguage = detectedLanguage (messages posted ! 0), targetLanguage = ''fr''\<rparr>
             (text (messages posted ! 0)) = Result (JStr ''Bonjour'')"
    by (simp add: translator_attempt_def host_def capability_def french_or_spanish_def)
  have c2: "translator_attempt (host Raises french_or_spanish)
             \<lparr>sourceLanguage = detectedLanguage (messages posted ! 0), targetLanguage = ''es''\<rparr>
             (text (messages posted ! 0)) = Result (JStr ''Hola'')"
    by (simp add: translator_attempt_def host_def capability_def french_or_spanish_def)
  have d: "''Bonjour'' \<noteq> []" "''Hola'' \<noteq> []" by simp_all
  show ?thesis
    using C5_translation_overwritten [OF a b c1 c2 d] by blast
qed



section \<open>The order of the messages\<close>



section \<open>When Summarize is offered\<close>

text \<open>
  C8. For every message on screen, in both revisions, the Summarize button is in the
  rendered tree exactly when the message's text has more than 150 characters and its
  detected language is the string \<open>"en"\<close>.
\<close>

theorem C8_summarize_offered:
  assumes "i < length (messages s)"
  shows "(summarizeButton (items (render_jsx s) ! i) \<longleftrightarrow>
            length (text (messages s ! i)) > 150 \<and> detectedLanguage (messages s ! i) = JStr ''en'')
       \<and> (summarizeButton (items (render_p0 s) ! i) \<longleftrightarrow>
            length (text (messages s ! i)) > 150 \<and> detectedLanguage (messages s ! i) = JStr ''en'')
       \<and> length (items (render_jsx s)) = length (messages s)
       \<and> length (items (render_p0 s)) = length (messages s)"
  using assms
  by (simp add: render_jsx_def render_p0_def renderMessage_jsx_def renderMessage_p0_def)

theorem C8_summarize_offered_witness:
  "summarizeButton (items (render_jsx shown_messages) ! 0)
   \<and> \<not> summarizeButton (items (render_jsx shown_messages) ! 1)
   \<and> \<not> summarizeButton (items (render_jsx shown_messages) ! 2)
   \<and> summarizeButton (items (render_p0 shown_messages) ! 0)
   \<and> \<not> summarizeButton (items (render_p0 shown_messages) ! 1)
   \<and> \<not> summarizeButton (items (render_p0 shown_messages) ! 2)"
proof -
  have l: "0 < length (messages shown_messages)" "1 < length (messages shown_messages)"
    "2 < length (messages shown_messages)"
    by (simp_all add: shown_messages_def initial_state_def)
  show ?thesis
    using C8_summarize_offered [OF l(1)] C8_summarize_offered [OF l(2)] C8_summarize_offered [OF l(3)]
    by (simp add: shown_messages_def initial_state_def long_text_def)
qed

section \<open>The error slot\<close>

text \<open>
  C9, as the code has it. A blank submission writes the validation message to the error
  slot in both revisions. A non-blank submission leaves the slot empty in \<open>App.jsx\<close>; in
  \<open>part_000\<close> it leaves the slot empty when detection returned, and otherwise leaves
  the detection error in it. Summarize and Translate leave the slot as it was in
  \<open>App.jsx\<close>, whatever the capability did; in \<open>part_000\<close> an unavailable or failing
  capability writes its message to the slot. Every write replaces what the slot held.
  No error is fatal: on a message that exists each handler returns a state.
\<close>

theorem C9_error_slot:
  "(trim (inputText s) = [] \<longrightarrow>
      error (handleSubmit_jsx self s) = ''Please enter text before submitting.''
      \<and> error (handleSubmit_p0 self s) = ''Input field is empty. Please enter some text.'')
   \<and> (trim (inputText s) \<noteq> [] \<longrightarrow>
      error (handleSubmit_jsx self s) = []
      \<and> error (handleSubmit_p0 self s) =
          (case detector_attempt self (inputText s) of
             Unavailable \<Rightarrow> ''Feature unavailable: Language detection.''
           | Failed \<Rightarrow> ''Could not detect the language. Please try again.''
           | Result results \<Rightarrow> []))
   \<and> (index < length (messages s) \<longrightarrow>
      (\<exists>s'. handleSummarize_jsx self index s = Inr s' \<and> error s' = error s)
      \<and> (\<exists>s'. handleTranslate_jsx self index s = Inr s' \<and> error s' = error s))
   \<and> (index < length (messages s) \<and> text (messages s ! index) \<noteq> [] \<longrightarrow>
      (\<exists>s'. handleSummarize_p0 self index s = Inr s'
         \<and> error s' =
             (case summarizer_attempt self (text (messages s ! index)) of
                Unavailable \<Rightarrow> ''Feature unavailable: Text summarization.''
              | Failed \<Rightarrow> ''Summarization failed. Please check your input and try again.''
              | Result r \<Rightarrow> error s))
      \<and> (\<exists>s'. handleTranslate_p0 self index s = Inr s'
         \<and> error s' =
             (case translator_attempt self
                     \<lparr>sourceLanguage = detectedLanguage (messages s ! index),
                       targetLanguage = selectedLanguage s\<rparr>
                     (text (messages s ! index)) of
                Unavailable \<Rightarrow> ''Feature unavailable: Text translation.''
              | Failed \<Rightarrow> ''Translation failed. Check if the language pair is supported.''
              | Result r \<Rightarrow> error s)))"
proof -
  have a: "trim (inputText s) = [] \<longrightarrow>
      error (handleSubmit_jsx self s) = ''Please enter text before submitting.''
      \<and> error (handleSubmit_p0 self s) = ''Input field is empty. Please enter some text.''"
    by (simp add: handleSubmit_jsx_def handleSubmit_p0_def setError_def)
  have b: "trim (inputText s) \<noteq> [] \<longrightarrow>
      error (handleSubmit_jsx self s) = []
      \<and> error (handleSubmit_p0 self s) =
          (case detector_attempt self (inputText s) of
             Unavailable \<Rightarrow> ''Feature unavailable: Language detection.''
           | Failed \<Rightarrow> ''Could not detect the language. Please try again.''
           | Result results \<Rightarrow> [])"
    by (simp add: handleSubmit_jsx_def handleSubmit_p0_def setError_def setInputText_def
        case_prod_beta Let_def detectLanguage_jsx_frame detectLanguage_p0_error
        split: attempt.splits)
  have c: "index < length (messages s) \<longrightarrow>
      (\<exists>s'. handleSummarize_jsx self index s = Inr s' \<and> error s' = error s)
      \<and> (\<exists>s'. handleTranslate_jsx self index s = Inr s' \<and> error s' = error s)"
    by (simp add: handleSummarize_jsx_def handleTranslate_jsx_def case_prod_beta Let_def
        wrapper_frames)
  have d: "index < length (messages s) \<and> text (messages s ! index) \<noteq> [] \<longrightarrow>
      (\<exists>s'. handleSummarize_p0 self index s = Inr s'
         \<and> error s' =
             (case summarizer_attempt self (text (messages s ! index)) of
                Unavailable \<Rightarrow> ''Feature unavailable: Text summarization.''
              | Failed \<Rightarrow> ''Summarization failed. Please check your input and try again.''
              | Result r \<Rightarrow> error s))
      \<and> (\<exists>s'. handleTranslate_p0 self index s = Inr s'
         \<and> error s' =
             (case translator_attempt self
                     \<lparr>sourceLanguage = detectedLanguage (messages s ! index),
                       targetLanguage = selectedLanguage s\<rparr>
                     (text (messages s ! index)) of
                Unavailable \<Rightarrow> ''Feature unavailable: Text translation.''
              | Failed \<Rightarrow> ''Translation failed. Check if the language pair is supported.''
              | Result r \<Rightarrow> error s))"
    by (simp add: handleSummarize_p0_def handleTranslate_p0_def case_prod_beta Let_def
        summarizeText_p0_error translateText_p0_error)
  show ?thesis using a b c d by blast
qed

theorem C9_error_slot_witness:
  "error (handleSubmit_jsx no_host initial_state) = ''Please enter text before submitting.''
   \<and> error (handleSubmit_p0 no_host initial_state) = ''Input field is empty. Please enter some text.''
   \<and> error (handleSubmit_jsx no_host (setInputText ''Hello'' stale_error)) = []
   \<and> error (handleSubmit_p0 no_host (setInputText ''Hello'' stale_error))
       = ''Feature unavailable: Language detection.''
   \<and> error (handleSubmit_p0 (host Raises (\<lambda>l. Raises)) (setInputText ''Hello'' stale_error)) = []
   \<and> (\<exists>s'. handleTranslate_jsx no_host 0 stale_error = Inr s'
        \<and> error s' = ''Input field is empty. Please enter some text.'')
   \<and> (\<exists>s'. handleTranslate_p0 no_host 0 stale_error = Inr s'
        \<and> error s' = ''Feature unavailable: Text translation.'')
   \<and> (\<exists>s'. handleSummarize_p0 (host Raises (\<lambda>l. Raises)) 0 stale_error = Inr s'
        \<and> error s' = ''Summarization failed. Please check your input and try again.'')"
proof -
  have blank: "trim (inputText initial_state) = []"
    by (simp add: initial_state_def trim_def)
  have filled: "trim (inputText (setInputText ''Hello'' stale_error)) \<noteq> []"
    by (simp add: setInputText_def trim_def is_ws_def)
  have i: "0 < length (messages stale_error)"
    by (simp add: stale_error_facts posted_facts long_text_nonempty)
  have it: "0 < length (messages stale_error) \<and> text (messages stale_error ! 0) \<noteq> []"
    by (simp add: stale_error_facts posted_facts long_text_nonempty)
  have e: "error stale_error = ''Input field is empty. Please enter some text.''"
    by (simp add: stale_error_facts)
  have d1: "detector_attempt no_host (inputText (setInputText ''Hello'' stale_error)) = Unavailable"
    by (simp add: detector_attempt_def no_host_def capability_def)
  have d2: "detector_attempt (host Raises (\<lambda>l. Raises)) (inputText (setInputText ''Hello'' stale_error))
      = Result [Detection (JStr ''en'') 1]"
    by (simp add: detector_attempt_def host_def capability_def)
  have t: "translator_attempt no_host
             \<lparr>sourceLanguage = detectedLanguage (messages stale_error ! 0),
               targetLanguage = selectedLanguage stale_error\<rparr>
             (text (messages stale_error ! 0)) = Unavailable"
    by (simp add: translator_attempt_def no_host_def capability_def)
  have u: "summarizer_attempt (host Raises (\<lambda>l. Raises)) (text (messages stale_error ! 0)) = Failed"
    by (simp add: summarizer_attempt_def host_def capability_def)
  note a = C9_error_slot [of initial_state no_host 0, THEN conjunct1, THEN mp, OF blank]
  note b1 = C9_error_slot [of "setInputText ''Hello'' stale_error" no_host 0,
      THEN conjunct2, THEN conjunct1, THEN mp, OF filled]
  note b2 = C9_error_slot [of "setInputText ''Hello'' stale_error" "host Raises (\<lambda>l. Raises)" 0,
      THEN conjunct2, THEN conjunct1, THEN mp, OF filled]
  note c = C9_error_slot [of stale_error no_host 0,
      THEN conjunct2, THEN conjunct2, THEN conjunct1, THEN mp, OF i]
  note d = C9_error_slot [of stale_error no_host 0,
      THEN conjunct2, THEN conjunct2, THEN conjunct2, THEN mp, OF it]
  note d' = C9_error_slot [of stale_error "host Raises (\<lambda>l. Raises)" 0,
      THEN conjunct2, THEN conjunct2, THEN conjunct2, THEN mp, OF it]
  show ?thesis
    using a b1 b2 c d d' d1 d2 t u e by simp
qed

text \<open>
  C9 as stated fails twice. In \<open>App.jsx\<close> a translation on a host without the
  capability writes to the console and leaves the error slot empty. In \<open>part_000\<close> a
  submission that appends its message on a host without the detector leaves the
  detection error in the slot.
\<close>

theorem C9_error_slot_counterexample:
  "console (complete_all_jsx [Change ''Hello'', Submit no_host, Translate no_host 0] initial_state)
     = [''Language Detector API not supported.'', ''Translator API not supported.'']
   \<and> error (complete_all_jsx [Change ''Hello'', Submit no_host, Translate no_host 0] initial_state) = []
   \<and> map text (messages (complete_all_p0 [Change ''Hello'', Submit no_host] initial_state)) = [''Hello'']
   \<and> error (complete_all_p0 [Change ''Hello'', Submit no_host] initial_state)
     = ''Feature unavailable: Language detection.''"
  by (simp add: run_defs trim_def is_ws_def)

section \<open>Empty results\<close>

text \<open>
  C10, as the code has it, for a message with non-empty text. An empty string returned
  by the translator leaves the message list unchanged. An empty string returned by the summarizer is replaced by a fallback
  text inside \<open>summarizeText\<close> (\<open>"Summarization failed"\<close> in \<open>App.jsx\<close>,
  \<open>"Failed to generate summary."\<close> in \<open>part_000\<close>), and that text is stored as the
  summary. Whatever the capability does, each handler either leaves the list as it was
  or stores a truthy value in the one field.
\<close>

theorem C10_empty_result:
  assumes "index < length (messages s)"
    and "text (messages s ! index) \<noteq> []"
  shows "(translator_attempt self
            \<lparr>sourceLanguage = detectedLanguage (messages s ! index),
              targetLanguage = selectedLanguage s\<rparr>
            (text (messages s ! index)) = Result (JStr []) \<longrightarrow>
          (\<exists>s'. handleTranslate_jsx self index s = Inr s' \<and> messages s' = messages s)
          \<and> (\<exists>s'. handleTranslate_p0 self index s = Inr s' \<and> messages s' = messages s))
       \<and> (summarizer_attempt self (text (messages s ! index)) = Result (JStr []) \<longrightarrow>
          (\<exists>s'. handleSummarize_jsx self index s = Inr s'
             \<and> messages s' =
                 (messages s)[index := (messages s ! index)\<lparr>summary := JStr ''Summarization failed''\<rparr>])
          \<and> (\<exists>s'. handleSummarize_p0 self index s = Inr s'
             \<and> messages s' =
                 (messages s)[index := (messages s ! index)\<lparr>summary := JStr ''Failed to generate summary.''\<rparr>]))
       \<and> (\<exists>s'. handleSummarize_jsx self index s = Inr s'
             \<and> (messages s' = messages s
                \<or> (\<exists>v. truthy v \<and> messages s' = (messages s)[index := (messages s ! index)\<lparr>summary := v\<rparr>])))
       \<and> (\<exists>s'. handleSummarize_p0 self index s = Inr s'
             \<and> (messages s' = messages s
                \<or> (\<exists>v. truthy v \<and> messages s' = (messages s)[index := (messages s ! index)\<lparr>summary := v\<rparr>])))
       \<and> (\<exists>s'. handleTranslate_jsx self index s = Inr s'
             \<and> (messages s' = messages s
                \<or> (\<exists>v. truthy v \<and> messages s' = (messages s)[index := (messages s ! index)\<lparr>translation := v\<rparr>])))
       \<and> (\<exists>s'. handleTranslate_p0 self index s = Inr s'
             \<and> (messages s' = messages s
                \<or> (\<exists>v. truthy v \<and> messages s' = (messages s)[index := (messages s ! index)\<lparr>translation := v\<rparr>])))"
proof -
  let ?m = "messages s ! index"
  have 1: "translator_attempt self
            \<lparr>sourceLanguage = detectedLanguage ?m, targetLanguage = selectedLanguage s\<rparr>
            (text ?m) = Result (JStr []) \<longrightarrow>
          (\<exists>s'. handleTranslate_jsx self index s = Inr s' \<and> messages s' = messages s)
          \<and> (\<exists>s'. handleTranslate_p0 self index s = Inr s' \<and> messages s' = messages s)"
    using assms
    by (simp add: handleTranslate_jsx_def handleTranslate_p0_def case_prod_beta Let_def
        translateText_jsx_value translateText_p0_value wrapper_frames)
  have 2: "summarizer_attempt self (text ?m) = Result (JStr []) \<longrightarrow>
          (\<exists>s'. handleSummarize_jsx self index s = Inr s'
             \<and> messages s' = (messages s)[index := ?m\<lparr>summary := JStr ''Summarization failed''\<rparr>])
          \<and> (\<exists>s'. handleSummarize_p0 self index s = Inr s'
             \<and> messages s' = (messages s)[index := ?m\<lparr>summary := JStr ''Failed to generate summary.''\<rparr>])"
    using assms
    by (simp add: handleSummarize_jsx_def handleSummarize_p0_def case_prod_beta Let_def
        summarizeText_jsx_value summarizeText_p0_value wrapper_frames js_or_def)
  have 3: "\<exists>s'. handleSummarize_jsx self index s = Inr s'
             \<and> (messages s' = messages s
                \<or> (\<exists>v. truthy v \<and> messages s' = (messages s)[index := ?m\<lparr>summary := v\<rparr>]))"
    using assms
    by (auto simp: handleSummarize_jsx_def case_prod_beta Let_def wrapper_frames)
  have 4: "\<exists>s'. handleSummarize_p0 self index s = Inr s'
             \<and> (messages s' = messages s
                \<or> (\<exists>v. truthy v \<and> messages s' = (messages s)[index := ?m\<lparr>summary := v\<rparr>]))"
    using assms
    by (auto simp: handleSummarize_p0_def case_prod_beta Let_def wrapper_frames)
  have 5: "\<exists>s'. handleTranslate_jsx self index s = Inr s'
             \<and> (messages s' = messages s
                \<or> (\<exists>v. truthy v \<and> messages s' = (messages s)[index := ?m\<lparr>translation := v\<rparr>]))"
    using assms
    by (auto simp: handleTranslate_jsx_def case_prod_beta Let_def wrapper_frames)
  have 6: "\<exists>s'. handleTranslate_p0 self index s = Inr s'
             \<and> (messages s' = messages s
                \<or> (\<exists>v. truthy v \<and> messages s' = (messages s)[index := ?m\<lparr>translation := v\<rparr>]))"
    using assms
    by (auto simp: handleTranslate_p0_def case_prod_beta Let_def wrapper_frames)
  show ?thesis using 1 2 3 4 5 6 by blast
qed

theorem C10_empty_result_witness:
  "(\<exists>s'. handleTranslate_jsx (host (Returns (JStr [])) (\<lambda>l. Returns (JStr []))) 0 posted = Inr s'
      \<and> messages s' = messages posted)
   \<and> (\<exists>s'. handleTranslate_p0 (host (Returns (JStr [])) (\<lambda>l. Returns (JStr []))) 0 posted = Inr s'
      \<and> messages s' = messages posted)
   \<and> (\<exists>s'. handleSummarize_jsx (host (Returns (JStr [])) (\<lambda>l. Returns (JStr []))) 0 posted = Inr s'
      \<and> summary (messages s' ! 0) = JStr ''Summarization failed'')
   \<and> (\<exists>s'. handleSummarize_p0 (host (Returns (JStr [])) (\<lambda>l. Returns (JStr []))) 0 posted = Inr s'
      \<and> summary (messages s' ! 0) = JStr ''Failed to generate summary.'')"
proof -
  let ?h = "host (Returns (JStr [])) (\<lambda>l. Returns (JStr []))"
  have a: "0 < length (messages posted)"
    by (simp add: posted_facts long_text_nonempty)
  have b: "text (messages posted ! 0) \<noteq> []"
    by (simp add: posted_facts long_text_nonempty)
  have t: "translator_attempt ?h
             \<lparr>sourceLanguage = detectedLanguage (messages posted ! 0),
               targetLanguage = selectedLanguage posted\<rparr>
             (text (messages posted ! 0)) = Result (JStr [])"
    by (simp add: translator_attempt_def host_def capability_def)
  have u: "summarizer_attempt ?h (text (messages posted ! 0)) = Result (JStr [])"
    by (simp add: summarizer_attempt_def host_def capability_def)
  note th = C10_empty_result [OF a b, of ?h]
  show ?thesis
    using th [THEN conjunct1, THEN mp, OF t] th [THEN conjunct2, THEN conjunct1, THEN mp, OF u] a
    by auto
qed

text \<open>
  C10 as stated fails for summaries: on a host whose summarizer returns the empty string,
  pressing Summarize changes the summary from unset to the fallback text, in both
  revisions.
\<close>

theorem C10_empty_summary_counterexample:
  "summary (messages (complete_all_jsx [Change long_text, Submit (host (Returns (JStr [])) (\<lambda>l. Raises))]
                        initial_state) ! 0) = JStr []
   \<and> summary (messages (complete_all_jsx [Change long_text, Submit (host (Returns (JStr [])) (\<lambda>l. Raises)),
                                Summarize (host (Returns (JStr [])) (\<lambda>l. Raises)) 0]
                        initial_state) ! 0) = JStr ''Summarization failed''
   \<and> summary (messages (complete_all_p0 [Change long_text, Submit (host (Returns (JStr [])) (\<lambda>l. Raises))]
                        initial_state) ! 0) = JNull
   \<and> summary (messages (complete_all_p0 [Change long_text, Submit (host (Returns (JStr [])) (\<lambda>l. Raises)),
                                Summarize (host (Returns (JStr [])) (\<lambda>l. Raises)) 0]
                        initial_state) ! 0) = JStr ''Failed to generate summary.''"
  by (simp add: run_defs)

end
